theory Spec2Isabelle
  imports
    Complex_Main
    "HOL-Library.Sublist"
    "HOL-Library.Char_ord"
    "HOL-Library.List_Lexorder"
    "HOL-Library.Product_Lexorder"
begin

section \<open>Python values\<close>

text \<open>
  Python text is modelled as \<open>string\<close>, one \<open>char\<close> per code point, and is restricted to
  ASCII: case folding and white space are those of ASCII. The one character beyond ASCII
  that the code writes itself, the ellipsis U+2026, is stood for by the char \<open>0x85\<close>.
\<close>

definition is_space :: "char \<Rightarrow> bool" where
  "is_space c = ((of_char c :: nat) \<in> {9, 10, 11, 12, 13, 28, 29, 30, 31, 32})"

definition lower_char :: "char \<Rightarrow> char" where
  "lower_char c = (let n = (of_char c :: nat) in if 65 \<le> n \<and> n \<le> 90 then char_of (n + 32) else c)"

definition lower :: "string \<Rightarrow> string" where
  "lower s = map lower_char s"

definition strip :: "string \<Rightarrow> string" where
  "strip s = dropWhile is_space (rev (dropWhile is_space (rev s)))"

text \<open>\<open>needle in hay\<close> on two strings.\<close>

fun contains :: "string \<Rightarrow> string \<Rightarrow> bool" where
  "contains [] needle = (needle = [])"
| "contains (c # cs) needle = (prefix needle (c # cs) \<or> contains cs needle)"

text \<open>\<open>s.split(sep)\<close> for a one-character separator.\<close>

fun split_on :: "char \<Rightarrow> string \<Rightarrow> string list" where
  "split_on sep [] = [[]]"
| "split_on sep (c # cs) =
     (if c = sep then [] # split_on sep cs
      else (case split_on sep cs of [] \<Rightarrow> [[c]] | w # ws \<Rightarrow> (c # w) # ws))"

text \<open>\<open>s.split(sep)[0]\<close> for a one-character separator.\<close>

definition before_char :: "char \<Rightarrow> string \<Rightarrow> string" where
  "before_char sep s = takeWhile (\<lambda>c. c \<noteq> sep) s"

text \<open>\<open>str(n)\<close> for a natural number.\<close>

fun show_nat :: "nat \<Rightarrow> string" where
  "show_nat n = (if n < 10 then [''0123456789'' ! n]
                 else show_nat (n div 10) @ [''0123456789'' ! (n mod 10)])"

declare show_nat.simps [simp del]

text \<open>\<open>s.rstrip()\<close> and \<open>s.rstrip(c)\<close> for one character.\<close>

definition rstrip :: "string \<Rightarrow> string" where
  "rstrip s = rev (dropWhile is_space (rev s))"

definition rstrip_char :: "char \<Rightarrow> string \<Rightarrow> string" where
  "rstrip_char c s = rev (dropWhile (\<lambda>x. x = c) (rev s))"

definition strip_char :: "char \<Rightarrow> string \<Rightarrow> string" where
  "strip_char c s = dropWhile (\<lambda>x. x = c) (rstrip_char c s)"

text \<open>\<open>sep.join(xs)\<close>.\<close>

fun join :: "string \<Rightarrow> string list \<Rightarrow> string" where
  "join sep [] = []"
| "join sep [x] = x"
| "join sep (x # y # ys) = x @ sep @ join sep (y # ys)"

text \<open>\<open>s.find(needle)\<close>, with \<open>None\<close> for -1.\<close>

fun find_str :: "string \<Rightarrow> string \<Rightarrow> nat option" where
  "find_str [] needle = (if needle = [] then Some 0 else None)"
| "find_str (c # cs) needle =
     (if prefix needle (c # cs) then Some 0 else map_option Suc (find_str cs needle))"

text \<open>
  \<open>_norm_ws\<close>: strip, then every run of white space becomes one blank. The flag of
  \<open>collapse_ws\<close> says that the character before was white space.
\<close>

fun collapse_ws :: "bool \<Rightarrow> string \<Rightarrow> string" where
  "collapse_ws prev [] = []"
| "collapse_ws prev (c # cs) =
     (if is_space c then (if prev then collapse_ws True cs else CHR '' '' # collapse_ws True cs)
      else c # collapse_ws False cs)"

definition norm_ws :: "string \<Rightarrow> string" where
  "norm_ws s = collapse_ws False (strip s)"

text \<open>\<open>_dedupe_keep_order\<close>; \<open>seen\<close> holds the lower-cased keys met so far.\<close>

fun dedupe_from :: "string list \<Rightarrow> string list \<Rightarrow> string list" where
  "dedupe_from seen [] = []"
| "dedupe_from seen (x # xs) =
     (let t = norm_ws x in
      if t = [] then dedupe_from seen xs
      else if lower t \<in> set seen then dedupe_from seen xs
      else t # dedupe_from (lower t # seen) xs)"

definition dedupe_keep_order :: "string list \<Rightarrow> string list" where
  "dedupe_keep_order items = dedupe_from [] items"

definition ellipsis :: string where
  "ellipsis = [CHR 0x85]"

text \<open>\<open>_truncate\<close>, for a positive \<open>max_len\<close>.\<close>

definition truncate_text :: "string \<Rightarrow> nat \<Rightarrow> string" where
  "truncate_text s max_len =
     (let t = norm_ws s in
      if length t \<le> max_len then t else rstrip (take (max_len - 1) t) @ ellipsis)"

text \<open>
  The values \<open>json.loads\<close> produces. A dict is an association list in insertion order
  with one binding per key. \<open>JFloat\<close> carries the exact value of a finite float.
\<close>

datatype json =
    JNull
  | JBool bool
  | JInt int
  | JFloat rat
  | JStr string
  | JList "json list"
  | JObj "(string \<times> json) list"

type_synonym dict = "(string \<times> json) list"

datatype py_exn = TypeError | AttributeError | IndexError | KeyError

definition dict_get :: "dict \<Rightarrow> string \<Rightarrow> json option" where
  "dict_get d k = map_of d k"

fun dict_set :: "dict \<Rightarrow> string \<Rightarrow> json \<Rightarrow> dict" where
  "dict_set [] k v = [(k, v)]"
| "dict_set ((k', v') # d) k v = (if k' = k then (k, v) # d else (k', v') # dict_set d k v)"

text \<open>Truth value of a Python object, as \<open>if x\<close> and \<open>not x\<close> read it.\<close>

fun truthy :: "json \<Rightarrow> bool" where
  "truthy JNull = False"
| "truthy (JBool b) = b"
| "truthy (JInt n) = (n \<noteq> 0)"
| "truthy (JFloat r) = (r \<noteq> 0)"
| "truthy (JStr s) = (s \<noteq> [])"
| "truthy (JList xs) = (xs \<noteq> [])"
| "truthy (JObj d) = (d \<noteq> [])"

fun is_dict :: "json \<Rightarrow> bool" where
  "is_dict (JObj d) = True"
| "is_dict _ = False"

text \<open>\<open>x == n\<close> for a JSON value \<open>x\<close> and an integer \<open>n\<close>.\<close>

fun eq_int :: "json \<Rightarrow> int \<Rightarrow> bool" where
  "eq_int (JInt m) n = (m = n)"
| "eq_int (JFloat r) n = (r = of_int n)"
| "eq_int (JBool b) n = ((if b then 1 else 0) = n)"
| "eq_int _ n = False"

section \<open>Stage A post-processing of the decision readiness audit\<close>

text \<open>
  \<open>LLMAuditor.run_stage_a\<close>, the block that pads \<open>decision_readiness_audit\<close> and settles
  \<open>decision_coverage_score\<close>. The block mutates \<open>audit_json\<close>; the model returns the
  updated dict, or the exception the block raises.
\<close>

definition padding_element :: "nat \<Rightarrow> json" where
  "padding_element i = JObj
     [(''element_name'', JStr (''Decision Element '' @ show_nat (i + 1))),
      (''status'', JStr ''missing''),
      (''what_ai_requires'', JStr ''AI needs structured information.''),
      (''what_we_found'', JStr ''Not detected in evidence.''),
      (''impact_on_recommendation'', JStr ''AI cannot make informed recommendations.''),
      (''evidence_refs'', JList [])]"

text \<open>\<open>elements + fallback_elements[:needed]\<close> for a truthy \<open>fallback_elements\<close>.\<close>

fun concat_slice :: "json list \<Rightarrow> json \<Rightarrow> nat \<Rightarrow> py_exn + json list" where
  "concat_slice elements (JList fb) needed = Inr (elements @ take needed fb)"
| "concat_slice elements _ needed = Inl TypeError"

definition pad_elements :: "dict \<Rightarrow> json list \<Rightarrow> py_exn + json list" where
  "pad_elements audit_json elements =
     (if length elements < 12 then
        (let fallback_elements =
               (case dict_get audit_json ''_fallback_decision_elements'' of
                  None \<Rightarrow> JList [] | Some v \<Rightarrow> v);
             fallback_elements' =
               (if \<not> truthy fallback_elements
                then JList (map padding_element [0 ..< 12 - length elements])
                else fallback_elements);
             needed = 12 - length elements
         in concat_slice elements fallback_elements' needed)
      else Inr elements)"

text \<open>\<open>e.get("status")\<close>: only a dict has \<open>get\<close>.\<close>

fun status_of :: "json \<Rightarrow> py_exn + json option" where
  "status_of (JObj d) = Inr (dict_get d ''status'')"
| "status_of _ = Inl AttributeError"

definition count_status :: "string list \<Rightarrow> json list \<Rightarrow> nat" where
  "count_status names elements =
     length (filter (\<lambda>e. case status_of e of
                            Inr (Some (JStr s)) \<Rightarrow> s \<in> set names
                          | _ \<Rightarrow> False) elements)"

definition calculated_score :: "json list \<Rightarrow> py_exn + json" where
  "calculated_score elements =
     (if \<forall>e \<in> set elements. is_dict e then
        Inr (JObj
          [(''present'', JInt (int (count_status [''present''] elements))),
           (''weak'', JInt (int (count_status [''weak'', ''fragmented''] elements))),
           (''missing'', JInt (int (count_status [''missing''] elements))),
           (''total'', JInt (int (length elements)))])
      else Inl AttributeError)"

text \<open>
  The test that replaces the generator's score by the calculated one: the score is
  missing or falsy, is no dict, has \<open>total\<close> absent or equal to 0, or has a \<open>total\<close>
  different from the number of elements.
\<close>

definition score_replaced :: "json option \<Rightarrow> nat \<Rightarrow> bool" where
  "score_replaced llm_score n =
     (case llm_score of
        None \<Rightarrow> True
      | Some (JObj d) \<Rightarrow>
          d = [] \<or>
          eq_int (case dict_get d ''total'' of None \<Rightarrow> JInt 0 | Some t \<Rightarrow> t) 0 \<or>
          \<not> (case dict_get d ''total'' of None \<Rightarrow> False | Some t \<Rightarrow> eq_int t (int n))
      | Some _ \<Rightarrow> True)"

definition postprocess_decision :: "dict \<Rightarrow> py_exn + dict" where
  "postprocess_decision audit_json =
     (case dict_get audit_json ''decision_readiness_audit'' of
        Some (JList elements0) \<Rightarrow>
          (case pad_elements audit_json elements0 of
             Inl e \<Rightarrow> Inl e
           | Inr elements \<Rightarrow>
               (let audit_json1 =
                      (if length elements0 < 12
                       then dict_set audit_json ''decision_readiness_audit'' (JList elements)
                       else audit_json)
                in case calculated_score elements of
                     Inl e \<Rightarrow> Inl e
                   | Inr score \<Rightarrow>
                       if score_replaced (dict_get audit_json1 ''decision_coverage_score'')
                            (length elements)
                       then Inr (dict_set audit_json1 ''decision_coverage_score'' score)
                       else Inr audit_json1))
      | _ \<Rightarrow> Inr audit_json)"

text \<open>Reading the three counts of a score back as integers, when they are integers.\<close>

definition score_sum :: "json \<Rightarrow> int option" where
  "score_sum sc =
     (case sc of
        JObj d \<Rightarrow>
          (case (dict_get d ''present'', dict_get d ''weak'', dict_get d ''missing'') of
             (Some (JInt p), Some (JInt w), Some (JInt m)) \<Rightarrow> Some (p + w + m)
           | _ \<Rightarrow> None)
      | _ \<Rightarrow> None)"

definition known_status :: "json \<Rightarrow> bool" where
  "known_status e =
     (case status_of e of
        Inr (Some (JStr s)) \<Rightarrow> s \<in> {''present'', ''weak'', ''fragmented'', ''missing''}
      | _ \<Rightarrow> False)"

text \<open>Sample generator outputs: eight audit elements, with a reported score.\<close>

definition sample_elements :: "json list" where
  "sample_elements =
     [JObj [(''element_name'', JStr ''Pricing''), (''status'', JStr ''present'')],
      JObj [(''element_name'', JStr ''FAQ''), (''status'', JStr ''weak'')],
      JObj [(''element_name'', JStr ''About''), (''status'', JStr ''weak'')],
      JObj [(''element_name'', JStr ''Contact''), (''status'', JStr ''weak'')],
      JObj [(''element_name'', JStr ''Cases''), (''status'', JStr ''missing'')],
      JObj [(''element_name'', JStr ''Scope''), (''status'', JStr ''missing'')],
      JObj [(''element_name'', JStr ''Policies''), (''status'', JStr ''missing'')],
      JObj [(''element_name'', JStr ''Reviews''), (''status'', JStr ''missing'')]]"

definition score_total_12 :: json where
  "score_total_12 =
     JObj [(''present'', JInt 1), (''weak'', JInt 3), (''missing'', JInt 4), (''total'', JInt 12)]"

definition audit_total_12 :: dict where
  "audit_total_12 =
     [(''decision_readiness_audit'', JList sample_elements),
      (''decision_coverage_score'', score_total_12)]"

definition audit_total_8 :: dict where
  "audit_total_8 =
     [(''decision_readiness_audit'', JList sample_elements),
      (''decision_coverage_score'',
       JObj [(''present'', JInt 5), (''weak'', JInt 2), (''missing'', JInt 1),
             (''total'', JInt 8)])]"

section \<open>Evidence extractor\<close>

text \<open>
  \<open>ScrapedPage\<close> (\<open>models.py\<close>): one stored page. The columns \<open>id\<close> and \<open>scraped_at\<close>
  are left out; a nullable column the code reads with \<open>or\<close> is an option.
\<close>

record scraped_page =
  audit_job_id :: string
  url :: string
  domain :: string
  is_target :: bool
  html_content :: "string option"
  text_content :: "string option"
  title :: "string option"
  meta_description :: "string option"
  status_code :: int
  content_type :: string
  word_count :: nat
  url_hash :: string

text \<open>
  What the helpers that walk the parsed HTML return for one page: \<open>_extract_language\<close>,
  \<open>_extract_jsonld\<close>, \<open>_extract_headings\<close>, \<open>_extract_ctas\<close> and
  \<open>_extract_internal_links\<close> (the number of distinct links and \<open>nav_top\<close>).
\<close>

record html_features =
  hf_language :: "string option"
  hf_jsonld :: "dict list"
  hf_h1 :: string
  hf_headings :: "string list"
  hf_ctas :: "string list"
  hf_links_unique :: nat
  hf_nav_top :: "string list"

text \<open>
  The libraries the extractor calls are parameters: \<open>urlparse(u).path\<close>, the HTML walk of
  BeautifulSoup (from the markup, the page's URL and its domain), and the two regular
  expression scans \<open>_EMAIL_RE.findall\<close> and \<open>_PHONE_RE.findall\<close>.
\<close>

record ext_lib =
  url_path :: "string \<Rightarrow> string"
  parse_html :: "string \<Rightarrow> string \<Rightarrow> string \<Rightarrow> html_features"
  find_emails :: "string \<Rightarrow> string list"
  find_phones :: "string \<Rightarrow> string list"

text \<open>The parse of empty markup: nothing is found.\<close>

definition no_features :: html_features where
  "no_features = \<lparr>hf_language = None, hf_jsonld = [], hf_h1 = [], hf_headings = [],
     hf_ctas = [], hf_links_unique = 0, hf_nav_top = []\<rparr>"

fun str_items :: "json list \<Rightarrow> string list" where
  "str_items [] = []"
| "str_items (JStr s # xs) = s # str_items xs"
| "str_items (_ # xs) = str_items xs"

fun dict_items :: "json list \<Rightarrow> dict list" where
  "dict_items [] = []"
| "dict_items (JObj d # xs) = d # dict_items xs"
| "dict_items (_ # xs) = dict_items xs"

text \<open>The \<open>@type\<close> of a JSON-LD object as a list of strings: a string, or the strings of a list.\<close>

definition type_list :: "dict \<Rightarrow> string list" where
  "type_list obj =
     (case dict_get obj ''@type'' of
        Some (JStr t) \<Rightarrow> [t]
      | Some (JList ts) \<Rightarrow> str_items ts
      | _ \<Rightarrow> [])"

definition jsonld_types :: "dict list \<Rightarrow> string list" where
  "jsonld_types jsonlds = take 20 (dedupe_keep_order (concat (map type_list jsonlds)))"

fun find_org_name :: "dict list \<Rightarrow> string option" where
  "find_org_name [] = None"
| "find_org_name (obj # rest) =
     (if \<exists>x \<in> set (map lower (type_list obj)). x \<in> {''organization'', ''localbusiness''}
      then (case dict_get obj ''name'' of
              Some (JStr name) \<Rightarrow>
                (if norm_ws name \<noteq> [] then Some (norm_ws name) else find_org_name rest)
            | _ \<Rightarrow> find_org_name rest)
      else find_org_name rest)"

definition address_parts :: "dict \<Rightarrow> string list" where
  "address_parts addr =
     concat (map (\<lambda>k. case dict_get addr k of
                         Some (JStr v) \<Rightarrow> (if norm_ws v \<noteq> [] then [norm_ws v] else [])
                       | _ \<Rightarrow> [])
       [''streetAddress'', ''addressLocality'', ''addressRegion'', ''postalCode'',
        ''addressCountry''])"

definition find_locations_from_jsonld :: "dict list \<Rightarrow> string list" where
  "find_locations_from_jsonld jsonlds =
     take 10 (dedupe_keep_order (concat (map
       (\<lambda>obj. case dict_get obj ''address'' of
                 Some (JObj addr) \<Rightarrow>
                   (if address_parts addr \<noteq> [] then [join '', '' (address_parts addr)] else [])
               | _ \<Rightarrow> []) jsonlds)))"

text \<open>
  \<open>_snippets_around\<close>: the loop over the needles, which stops once \<open>max_snips\<close> snippets
  are collected.
\<close>

fun snippet_loop :: "string \<Rightarrow> string list \<Rightarrow> nat \<Rightarrow> nat \<Rightarrow> string list \<Rightarrow> string list" where
  "snippet_loop t [] max_snips window snips = snips"
| "snippet_loop t (needle # rest) max_snips window snips =
     (case find_str (lower t) (lower needle) of
        None \<Rightarrow> snippet_loop t rest max_snips window snips
      | Some idx \<Rightarrow>
          (let start = idx - window;
               stop = min (length t) (idx + length needle + window);
               snip = truncate_text (take (stop - start) (drop start t)) 260;
               snips' = snips @ [snip]
           in if length snips' \<ge> max_snips then snips'
              else snippet_loop t rest max_snips window snips'))"

definition snippets_around :: "string \<Rightarrow> string list \<Rightarrow> nat \<Rightarrow> nat \<Rightarrow> string list" where
  "snippets_around text needles max_snips window =
     (if text = [] then [] else dedupe_keep_order (snippet_loop text needles max_snips window []))"

text \<open>The euro and pound signs of the source's needle list are the chars \<open>0x80\<close> and \<open>0xA3\<close>.\<close>

definition pricing_needles :: "string list" where
  "pricing_needles = [''pricing'', ''price'', ''plans'', ''packages'', ''starting at'', ''$'',
     [CHR 0x80], [CHR 0xA3], ''usd'', ''eur'']"

record signals =
  pricing_detected :: bool
  pricing_snippets :: "string list"
  contact_detected :: bool
  contact_snippets :: "string list"
  emails_detected :: "string list"
  phones_detected :: "string list"
  locations_detected :: "string list"

text \<open>The dict that \<open>extract_page\<close> returns for one page.\<close>

record page_block =
  pb_url :: string
  pb_title :: string
  pb_meta_description :: string
  pb_text_excerpt :: string
  pb_language :: string
  pb_h1 :: string
  pb_headings :: "string list"
  pb_cta_detected :: "string list"
  pb_structured_data_types :: "string list"
  pb_jsonld :: "dict list"
  pb_internal_links_top :: "string list"
  pb_signals :: signals
  pb_internal_links_unique :: nat

definition or_empty :: "string option \<Rightarrow> string" where
  "or_empty x = (case x of None \<Rightarrow> [] | Some s \<Rightarrow> s)"

definition or_default :: "string \<Rightarrow> string \<Rightarrow> string" where
  "or_default s d = (if s = [] then d else s)"

definition extract_page :: "ext_lib \<Rightarrow> scraped_page \<Rightarrow> page_block" where
  "extract_page L page =
     (let html = or_empty (html_content page);
          f = (if html = [] then no_features else parse_html L html (url page) (domain page));
          jsonlds = hf_jsonld f;
          text = or_empty (text_content page);
          pricing_snips = snippets_around text pricing_needles 2 140;
          emails = take 3 (dedupe_keep_order (find_emails L text));
          phones = take 3 (dedupe_keep_order (find_phones L text));
          contact_snips =
            snippets_around text [''contact'', ''call'', ''email'', ''phone'', ''address''] 2 140;
          locations0 = find_locations_from_jsonld jsonlds;
          addr_snips = snippets_around text [''address'', ''located'', ''location''] 1 140;
          locations = (if locations0 = [] \<and> addr_snips \<noteq> [] then addr_snips else locations0)
      in \<lparr>pb_url = url page,
          pb_title = or_empty (title page),
          pb_meta_description = or_empty (meta_description page),
          pb_text_excerpt = truncate_text text 1200,
          pb_language = or_default (or_empty (hf_language f)) ''not detected'',
          pb_h1 = or_default (hf_h1 f) ''not detected'',
          pb_headings = hf_headings f,
          pb_cta_detected = (if html = [] then [] else hf_ctas f),
          pb_structured_data_types = jsonld_types jsonlds,
          pb_jsonld = take 6 jsonlds,
          pb_internal_links_top = take 10 (if html = [] then [] else hf_nav_top f),
          pb_signals =
            \<lparr>pricing_detected =
               (pricing_snips \<noteq> [] \<or> (contains (lower text) ''pricing'' \<and> length text > 200)),
             pricing_snippets = pricing_snips,
             contact_detected =
               (emails \<noteq> [] \<or> phones \<noteq> [] \<or> contact_snips \<noteq> []
                \<or> contains (lower (url page)) ''contact''),
             contact_snippets = contact_snips,
             emails_detected = emails,
             phones_detected = phones,
             locations_detected = take 5 locations\<rparr>,
          pb_internal_links_unique = (if html = [] then 0 else hf_links_unique f)\<rparr>)"

definition extract_pages :: "ext_lib \<Rightarrow> nat \<Rightarrow> scraped_page list \<Rightarrow> page_block list" where
  "extract_pages L max_pages pages = map (extract_page L) (take max_pages pages)"

subsection \<open>Company profile\<close>

text \<open>
  \<open>re.split(r"(?<=[.!?])\s+", t)\<close>: a separator is a maximal run of white space that follows
  one of the three marks. The first flag says that the character before is such a mark, the
  second that a separator is being skipped; \<open>cur\<close> is the current chunk, reversed.
\<close>

fun sentence_split :: "bool \<Rightarrow> bool \<Rightarrow> string \<Rightarrow> string \<Rightarrow> string list" where
  "sentence_split p g cur [] = [rev cur]"
| "sentence_split p g cur (c # cs) =
     (if g \<and> is_space c then sentence_split False True cur cs
      else if p \<and> is_space c then rev cur # sentence_split False True [] cs
      else sentence_split (c \<in> set ''.!?'') False (c # cur) cs)"

definition offer_bad :: "string list" where
  "offer_bad = [''cookie'', ''privacy'', ''terms'', ''subscribe'', ''newsletter'', ''copyright'']"

definition offer_prefer :: "string list" where
  "offer_prefer = [''we '', ''our '', ''provid'', ''offer'', ''help'', ''build'', ''deliver'',
     ''service'', ''solution'', ''product'']"

definition offer_score :: "string \<Rightarrow> nat" where
  "offer_score c =
     (if \<exists>p \<in> set offer_prefer. contains (lower c) p then 3 else 0)
     + (if 80 \<le> length c \<and> length c \<le> 180 then 2 else 0)"

text \<open>The second sentence: the first later entry that differs from the top one and fits.\<close>

fun second_sentence :: "string \<Rightarrow> string list \<Rightarrow> string list" where
  "second_sentence best [] = [best]"
| "second_sentence best (c # cs) =
     (if c \<noteq> best \<and> length (join '' '' [best, c]) \<le> 360 then [best, c]
      else second_sentence best cs)"

definition best_offer_sentences :: "string \<Rightarrow> string option" where
  "best_offer_sentences text =
     (let t = norm_ws text in
      if t = [] then None
      else
        (let chunks = map strip (filter (\<lambda>c. 40 \<le> length (strip c) \<and> length (strip c) \<le> 260)
                                   (sentence_split False False [] t));
             kept = filter (\<lambda>c. \<not> (\<exists>b \<in> set offer_bad. contains (lower c) b)) (take 80 chunks);
             scored = sort_key (\<lambda>(sc, c). (- int sc, length c))
                        (map (\<lambda>c. (offer_score c, c)) kept)
         in case scored of
              [] \<Rightarrow> None
            | (_, best) # rest \<Rightarrow>
                Some (truncate_text (join '' '' (second_sentence best (map snd rest))) 360)))"

record company_profile =
  company_name :: string
  primary_offer_summary :: string
  services_detected :: "string list"
  locations_detected_cp :: "string list"
  primary_language_detected :: string
  top_pages :: "string list"

definition is_home :: "ext_lib \<Rightarrow> string \<Rightarrow> bool" where
  "is_home L u = (rstrip_char CHR ''/'' (url_path L (lower u)) \<in> {[], ''/''})"

text \<open>\<open>counts[u] = counts.get(u, 0) + 1\<close> on a dict kept in insertion order.\<close>

fun count_add :: "(string \<times> nat) list \<Rightarrow> string \<Rightarrow> (string \<times> nat) list" where
  "count_add [] u = [(u, 1)]"
| "count_add ((k, n) # d) u = (if k = u then (k, n + 1) # d else (k, n) # count_add d u)"

definition top_pages_of :: "page_block list \<Rightarrow> string list" where
  "top_pages_of pages =
     map fst (take 10 (sort_key (\<lambda>(u, n). (- int n, u))
       (foldl count_add [] (filter (\<lambda>u. u \<noteq> []) (concat (map pb_internal_links_top pages))))))"

definition generic_headings :: "string set" where
  "generic_headings =
     {''home'', ''welcome'', ''about'', ''services'', ''products'', ''solutions'', ''contact''}"

definition service_candidates :: "ext_lib \<Rightarrow> page_block \<Rightarrow> string list" where
  "service_candidates L p =
     (let u = lower (pb_url p); t = lower (pb_title p);
          is_services = (contains u ''service'' \<or> contains u ''services'' \<or> contains t ''services'')
      in if \<not> (is_home L (pb_url p) \<or> is_services) then []
         else
           (let cand = (if lower (pb_h1 p) \<noteq> ''not detected'' then [pb_h1 p] else [])
                       @ pb_headings p
            in map norm_ws
                 (filter (\<lambda>c. 3 \<le> length (norm_ws c) \<and> length (norm_ws c) \<le> 80
                               \<and> lower (norm_ws c) \<notin> generic_headings) cand)))"

definition iter_pages_prefer_home :: "ext_lib \<Rightarrow> page_block list \<Rightarrow> page_block list" where
  "iter_pages_prefer_home L pages =
     filter (\<lambda>p. is_home L (pb_url p)) pages @ filter (\<lambda>p. \<not> is_home L (pb_url p)) pages"

text \<open>
  The first element of a list for which \<open>f\<close> gives a result: a loop that breaks there.
  \<open>if_truthy\<close> reads an empty string as no result, as \<open>if offer_summary\<close> does.
\<close>

definition if_truthy :: "string option \<Rightarrow> string option" where
  "if_truthy x = (case x of Some s \<Rightarrow> (if s = [] then None else Some s) | None \<Rightarrow> None)"

fun first_some :: "('a \<Rightarrow> 'b option) \<Rightarrow> 'a list \<Rightarrow> 'b option" where
  "first_some f [] = None"
| "first_some f (x # xs) = (case f x of Some y \<Rightarrow> Some y | None \<Rightarrow> first_some f xs)"

definition build_company_profile :: "ext_lib \<Rightarrow> page_block list \<Rightarrow> string \<Rightarrow> company_profile" where
  "build_company_profile L pages fallback_domain =
     (let primary_language =
            first_some (\<lambda>p. let lang = strip (pb_language p)
                             in if lang \<noteq> [] \<and> lower lang \<noteq> ''not detected'' then Some lang
                                else None) pages;
          services = take 12 (dedupe_keep_order (concat (map (service_candidates L) pages)));
          name = first_some (\<lambda>p. find_org_name (pb_jsonld p)) (iter_pages_prefer_home L pages);
          locations = take 10 (dedupe_keep_order
                        (concat (map (\<lambda>p. locations_detected (pb_signals p)) pages)));
          offer_summary0 =
            first_some (\<lambda>p. if_truthy (best_offer_sentences (pb_text_excerpt p)))
              (filter (\<lambda>p. is_home L (pb_url p)) pages);
          offer_summary =
            (case offer_summary0 of
               Some s \<Rightarrow> Some s
             | None \<Rightarrow>
                 first_some (\<lambda>p. if length (norm_ws (pb_meta_description p)) \<ge> 60
                                  then Some (truncate_text (pb_meta_description p) 260) else None)
                   (iter_pages_prefer_home L pages));
          company_name =
            (case name of
               Some n \<Rightarrow> n
             | None \<Rightarrow> or_default fallback_domain ''this domain'')
      in \<lparr>company_name = company_name,
          primary_offer_summary = (case offer_summary of Some s \<Rightarrow> or_default s ''not detected''
                                   | None \<Rightarrow> ''not detected''),
          services_detected = services,
          locations_detected_cp = locations,
          primary_language_detected =
            (case primary_language of Some l \<Rightarrow> l | None \<Rightarrow> ''not detected''),
          top_pages = top_pages_of pages\<rparr>)"

subsection \<open>Evidence items\<close>

text \<open>
  \<open>EvidenceItem\<close>. The confidence is the decimal literal of the source as a rational; the
  code only compares it with 0.0 and 1.0.
\<close>

record evidence_item =
  claim :: string
  proof_type :: string
  source_urls :: "string list"
  snippets :: "string list"
  confidence :: rat

definition add_item :: "string \<Rightarrow> string \<Rightarrow> string list \<Rightarrow> string list \<Rightarrow> rat \<Rightarrow> evidence_item" where
  "add_item c pt urls snips conf =
     \<lparr>claim = truncate_text c 240, proof_type = pt,
      source_urls = take 3 (dedupe_keep_order urls),
      snippets = take 3 (dedupe_keep_order snips), confidence = conf\<rparr>"

definition to_dict :: "evidence_item \<Rightarrow> evidence_item" where
  "to_dict e =
     \<lparr>claim = claim e, proof_type = proof_type e,
      source_urls = take 3 (source_urls e),
      snippets = take 3 (map (\<lambda>s. truncate_text s 260) (snippets e)),
      confidence = max 0 (min 1 (confidence e))\<rparr>"

definition pricing_item :: "page_block list \<Rightarrow> company_profile \<Rightarrow> evidence_item" where
  "pricing_item pages cp =
     (let urls = map pb_url pages;
          pricing_urls = filter (\<lambda>u. \<exists>k \<in> set [''pricing'', ''prices'', ''price'', ''plans''].
                                         contains (lower u) k) urls;
          pricing_snips = concat (map (\<lambda>p. pricing_snippets (pb_signals p)) pages)
      in if pricing_urls \<noteq> [] \<or> pricing_snips \<noteq> [] then
           add_item ''Pricing information is detectable, but may not be structured for AI quoting.''
             ''pricing_present''
             (if pricing_urls \<noteq> [] then take 3 pricing_urls else take 1 urls)
             (take 2 pricing_snips)
             (if pricing_urls \<noteq> [] then 75 / 100 else 55 / 100)
         else
           add_item ''No pricing page or pricing section was detected in the sampled pages.''
             ''no_pricing'' (take 3 (top_pages cp)) [''not detected''] (65 / 100))"

definition contact_item :: "page_block list \<Rightarrow> company_profile \<Rightarrow> evidence_item" where
  "contact_item pages cp =
     (let urls = map pb_url pages;
          contact_urls = filter (\<lambda>u. contains (lower u) ''contact'') urls;
          contact_snips = concat (map (\<lambda>p. contact_snippets (pb_signals p)) pages);
          emails = concat (map (\<lambda>p. emails_detected (pb_signals p)) pages);
          phones = concat (map (\<lambda>p. phones_detected (pb_signals p)) pages)
      in if contact_urls \<noteq> [] \<or> emails \<noteq> [] \<or> phones \<noteq> [] \<or> contact_snips \<noteq> [] then
           add_item
             ''Contact details exist, but must be presented in a consistent, AI-quotable block.''
             ''contact_present''
             (if take 2 contact_urls \<noteq> [] then take 2 contact_urls else take 2 urls)
             (take 2 (dedupe_keep_order (emails @ phones @ contact_snips)))
             (if contact_urls \<noteq> [] then 8 / 10 else 6 / 10)
         else
           add_item ''No clear contact page, email, or phone was detected in the sampled pages.''
             ''no_contact'' (take 3 (top_pages cp)) [''not detected''] (65 / 100))"

definition entity_item :: "page_block list \<Rightarrow> evidence_item" where
  "entity_item pages =
     (let urls = map pb_url pages;
          sd_types = dedupe_keep_order (concat (map pb_structured_data_types pages))
      in if \<exists>t \<in> set sd_types. lower t \<in> {''organization'', ''localbusiness''} then
           add_item
             ''Entity signals are present in structured data (Organization/LocalBusiness).''
             ''entity_signals_present'' (take 2 urls)
             [''structured_data_types: '' @ join '', '' (take 6 sd_types)] (8 / 10)
         else
           add_item
             ''No Organization/LocalBusiness structured data was detected in sampled pages.''
             ''weak_entity_signals'' (take 2 urls)
             [''structured_data_types: ''
                @ (if sd_types \<noteq> [] then join '', '' (take 6 sd_types) else ''not detected'')]
             (6 / 10))"

text \<open>The test of the language rule: the base codes of locale and detected language differ.\<close>

definition language_differs :: "company_profile \<Rightarrow> string option \<Rightarrow> bool" where
  "language_differs cp locale =
     (case locale of
        None \<Rightarrow> False
      | Some l \<Rightarrow>
          l \<noteq> [] \<and> strip l \<noteq> [] \<and>
          (let detected = lower (primary_language_detected cp);
               loc2 = before_char CHR ''-'' (lower l);
               det2 = (if detected \<noteq> [] \<and> detected \<noteq> ''not detected''
                       then before_char CHR ''-'' detected else [])
           in det2 \<noteq> [] \<and> loc2 \<noteq> [] \<and> det2 \<noteq> loc2))"

definition language_items :: "page_block list \<Rightarrow> company_profile \<Rightarrow> string option \<Rightarrow> evidence_item list" where
  "language_items pages cp locale =
     (if language_differs cp locale then
        [add_item
           (''Primary language on the site appears to differ from the requested locale (''
              @ or_empty locale @ '').'')
           ''language_mismatch'' (take 2 (map pb_url pages))
           [''html_lang_detected: '' @ primary_language_detected cp] (7 / 10)]
      else [])"

definition services_fragmented :: "page_block list \<Rightarrow> company_profile \<Rightarrow> bool" where
  "services_fragmented pages cp =
     (services_detected cp \<noteq> []
      \<and> \<not> (\<exists>u \<in> set (map pb_url pages). contains (lower u) ''service''))"

definition fragmented_items :: "page_block list \<Rightarrow> company_profile \<Rightarrow> evidence_item list" where
  "fragmented_items pages cp =
     (if services_fragmented pages cp then
        [add_item
           ''Service information appears present, but not organized into dedicated service explanation pages.''
           ''fragmented_content'' (take 3 (map pb_url pages))
           [''services_detected: '' @ join '', '' (take 5 (services_detected cp))] (6 / 10)]
      else [])"

definition build_evidence_items :: "page_block list \<Rightarrow> company_profile \<Rightarrow> string option \<Rightarrow> evidence_item list" where
  "build_evidence_items pages cp locale =
     take 12 ([pricing_item pages cp, contact_item pages cp, entity_item pages]
              @ language_items pages cp locale @ fragmented_items pages cp)"

record evidence_layer =
  el_company_profile :: company_profile
  el_pages :: "page_block list"
  el_evidence :: "evidence_item list"

definition build_evidence_layer ::
    "ext_lib \<Rightarrow> nat \<Rightarrow> scraped_page list \<Rightarrow> string \<Rightarrow> string option \<Rightarrow> evidence_layer" where
  "build_evidence_layer L max_pages pages fallback_domain locale =
     (let page_blocks = extract_pages L max_pages pages;
          cp = build_company_profile L page_blocks fallback_domain;
          evidence_items = build_evidence_items page_blocks cp locale
      in \<lparr>el_company_profile = cp, el_pages = page_blocks,
          el_evidence = map to_dict evidence_items\<rparr>)"

subsection \<open>Fixed confidences and a sample site\<close>


text \<open>
  A sample site of one page, \<open>https://example.com/\<close>, whose navigation links to
  \<open>/about\<close>. The library functions are given where the sample needs them.
\<close>

definition sample_lib :: ext_lib where
  "sample_lib = \<lparr>url_path = (\<lambda>u. drop 19 u),
     parse_html = (\<lambda>html u d. no_features\<lparr>hf_nav_top := [''https://example.com/about'']\<rparr>),
     find_emails = (\<lambda>t. []), find_phones = (\<lambda>t. [])\<rparr>"


section \<open>Web scraper\<close>

text \<open>\<open>s.replace(old, new)\<close> for a non-empty \<open>old\<close>.\<close>

fun replace_str :: "string \<Rightarrow> string \<Rightarrow> string \<Rightarrow> string" where
  "replace_str old new [] = []"
| "replace_str old new (c # cs) =
     (if old \<noteq> [] \<and> prefix old (c # cs)
      then new @ replace_str old new (drop (length old - 1) cs)
      else c # replace_str old new cs)"

text \<open>
  \<open>ScrapeDebug\<close>. The wall-clock timings are left out. \<open>robots_txt_status\<close> holds a status
  code or the string \<open>error\<close>.
\<close>

datatype robots_status = StatusCode nat | StatusError

record scrape_debug =
  input_url :: string
  normalized_url :: "string option"
  final_url :: "string option"
  homepage_status_code :: "nat option"
  homepage_fetch_error :: "string option"
  robots_txt_status :: "robots_status option"
  robots_disallows_all :: bool
  sitemap_found :: bool
  sitemap_urls_count :: nat
  links_extracted_from_homepage :: nat
  blocked_reason :: "string option"
  pages_attempted :: nat
  pages_success :: nat
  pages_failed :: nat
  errors :: "string list"

definition ScrapeDebug :: "string \<Rightarrow> scrape_debug" where
  "ScrapeDebug u =
     \<lparr>input_url = u, normalized_url = None, final_url = None, homepage_status_code = None,
      homepage_fetch_error = None, robots_txt_status = None, robots_disallows_all = False,
      sitemap_found = False, sitemap_urls_count = 0, links_extracted_from_homepage = 0,
      blocked_reason = None, pages_attempted = 0, pages_success = 0, pages_failed = 0,
      errors = []\<rparr>"

text \<open>
  What \<open>client.get\<close> gives: a response (status code, final URL, content-type header or the
  empty string, length of the content in bytes, text), or one of the exceptions the code
  tells apart, with its message.
\<close>

datatype http_outcome =
    Response (resp_status: nat) (resp_url: string) (resp_content_type: string)
             (resp_length: nat) (resp_text: string)
  | TimeoutException string
  | ConnectError string
  | OtherError string

text \<open>The six parts of \<open>urlparse\<close>, and its \<open>hostname\<close>.\<close>

datatype url_parts =
  UrlParts (scheme: string) (netloc: string) (path: string) (params: string)
           (query: string) (fragment: string) (hostname: "string option")

text \<open>
  The world outside the crawler: the rows of \<open>scraped_pages\<close>, of all jobs, and the URLs
  requested so far, in order.
\<close>

record world =
  db :: "scraped_page list"
  requests :: "string list"

text \<open>
  Parameters of the crawl. \<open>net k u\<close> is the answer to request number \<open>k\<close> when it asks
  for \<open>u\<close>. \<open>urlparse\<close> and \<open>urlunparse\<close> are those of \<open>urllib\<close>, taken not to raise;
  \<open>in_private_range\<close> says that the host name parses as an address inside one of
  \<open>PRIVATE_IP_RANGES\<close>; \<open>sha256_hex\<close> is \<open>hashlib.sha256(s.encode()).hexdigest()\<close>.
  \<open>soup_text\<close>, \<open>soup_title\<close> and \<open>soup_meta\<close> are the text, the title string and the
  content of the description meta tag that BeautifulSoup finds; \<open>anchor_urls html base\<close>
  lists \<open>urljoin(base, href)\<close> for the anchors of the markup; \<open>sitemap_locs\<close> lists the
  \<open>loc\<close> texts of a sitemap. \<open>set_order\<close> is the order in which a set is iterated and
  \<open>pop_index\<close> picks the element that \<open>set.pop()\<close> removes.
\<close>

record scr_lib =
  net :: "nat \<Rightarrow> string \<Rightarrow> http_outcome"
  urlparse :: "string \<Rightarrow> url_parts"
  urlunparse :: "url_parts \<Rightarrow> string"
  in_private_range :: "string option \<Rightarrow> bool"
  sha256_hex :: "string \<Rightarrow> string"
  soup_text :: "string \<Rightarrow> string"
  soup_title :: "string \<Rightarrow> string option"
  soup_meta :: "string \<Rightarrow> string option"
  anchor_urls :: "string \<Rightarrow> string \<Rightarrow> string list"
  sitemap_locs :: "string \<Rightarrow> string list"
  set_order :: "string list \<Rightarrow> string list"
  pop_index :: "string list \<Rightarrow> nat"
  max_page_size_mb :: nat

definition is_safe_url :: "scr_lib \<Rightarrow> string \<Rightarrow> bool" where
  "is_safe_url L u =
     (let parsed = urlparse L u in
      if scheme parsed \<notin> {''http'', ''https''} then False
      else if hostname parsed \<in> {Some ''localhost'', Some ''127.0.0.1'', Some ''::1''} then False
      else \<not> in_private_range L (hostname parsed))"

definition normalize_url :: "scr_lib \<Rightarrow> string \<Rightarrow> string" where
  "normalize_url L u =
     (let parsed = urlparse L u in
      urlunparse L
        (UrlParts (if scheme parsed = ''http'' then ''https'' else scheme parsed)
           (lower (netloc parsed))
           (or_default (rstrip_char CHR ''/'' (path parsed)) ''/'')
           (params parsed) (query parsed) [] None))"

definition get_url_hash :: "scr_lib \<Rightarrow> string \<Rightarrow> string" where
  "get_url_hash L u = sha256_hex L (normalize_url L u)"

definition identify_page_priority :: "scr_lib \<Rightarrow> string \<Rightarrow> nat" where
  "identify_page_priority L u =
     (let url_lower = lower u;
          p = rstrip_char CHR ''/'' (path (urlparse L url_lower))
      in if p = [] \<or> p = ''/'' then 0
         else if \<exists>k \<in> set [''about'', ''pricing'', ''price'', ''services'', ''products'',
                    ''solutions'', ''case-stud'', ''portfolio'', ''customers'', ''testimonial'',
                    ''reviews'']. contains url_lower k then 1
         else if \<exists>k \<in> set [''faq'', ''contact'', ''blog'', ''features'', ''resources'',
                    ''how-it-works'', ''use-case'', ''industries'', ''team'']. contains url_lower k
         then 2
         else 3)"

text \<open>One request: the answer, and the world with the request logged.\<close>

definition http_get :: "scr_lib \<Rightarrow> string \<Rightarrow> world \<Rightarrow> http_outcome \<times> world" where
  "http_get L u w = (net L (length (requests w)) u, w\<lparr>requests := requests w @ [u]\<rparr>)"

text \<open>The scan of \<open>check_robots\<close> over the lines of the lower-cased file.\<close>

fun blanket_disallow :: "string list \<Rightarrow> bool" where
  "blanket_disallow [] = False"
| "blanket_disallow (line # rest) =
     ((contains line ''user-agent: *''
       \<and> (\<exists>l \<in> set (take 4 rest). contains l ''disallow: /'' \<and> strip l = ''disallow: /''))
      \<or> blanket_disallow rest)"

definition exn_message :: "http_outcome \<Rightarrow> string" where
  "exn_message r =
     (case r of TimeoutException m \<Rightarrow> m | ConnectError m \<Rightarrow> m | OtherError m \<Rightarrow> m
      | Response _ _ _ _ _ \<Rightarrow> [])"

definition check_robots ::
    "scr_lib \<Rightarrow> string \<Rightarrow> scrape_debug \<times> world \<Rightarrow> bool \<times> scrape_debug \<times> world" where
  "check_robots L host st =
     (let dbg = fst st;
          (r, w) = http_get L (''https://'' @ host @ ''/robots.txt'') (snd st)
      in case r of
           Response code _ _ _ text \<Rightarrow>
             (let dbg1 = dbg\<lparr>robots_txt_status := Some (StatusCode code)\<rparr>;
                  content = lower text
              in if code = 200 \<and> contains content ''disallow: /''
                    \<and> contains content ''user-agent: *''
                    \<and> blanket_disallow (split_on CHR 0x0A content)
                 then (False, dbg1\<lparr>robots_disallows_all := True\<rparr>, w)
                 else (True, dbg1, w))
         | _ \<Rightarrow>
             (True,
              dbg\<lparr>robots_txt_status := Some StatusError,
                  errors := errors dbg @ [''robots.txt: '' @ take 100 (exn_message r)]\<rparr>,
              w))"

text \<open>
  \<open>fetch_page\<close>. The result is \<open>None\<close> or the tuple (html, text, title, meta description,
  status code). Parsing the markup is taken not to raise.
\<close>

type_synonym page_result = "string \<times> string \<times> string \<times> string \<times> nat"

definition fetch_page ::
    "scr_lib \<Rightarrow> string \<Rightarrow> bool \<Rightarrow> scrape_debug \<times> world
       \<Rightarrow> page_result option \<times> scrape_debug \<times> world" where
  "fetch_page L u is_homepage st =
     (let dbg = fst st in
      if \<not> is_safe_url L u
      then (None, dbg\<lparr>errors := errors dbg @ [''SSRF blocked: '' @ take 50 u]\<rparr>, snd st)
      else
        (let dbg1 = dbg\<lparr>pages_attempted := pages_attempted dbg + 1\<rparr>;
             (r, w) = http_get L u (snd st)
         in case r of
              Response code final ctype len text \<Rightarrow>
                (let dbg2 = (if is_homepage
                             then dbg1\<lparr>homepage_status_code := Some code, final_url := Some final\<rparr>
                             else dbg1)
                 in if code \<in> {403, 406, 429, 503} then
                      (None,
                       (if is_homepage
                        then dbg2\<lparr>blocked_reason := Some ''403_waf'',
                                  homepage_fetch_error := Some (''HTTP '' @ show_nat code)\<rparr>
                        else dbg2)\<lparr>pages_failed := pages_failed dbg2 + 1\<rparr>,
                       w)
                    else if code \<ge> 400 then
                      (None, dbg2\<lparr>pages_failed := pages_failed dbg2 + 1\<rparr>, w)
                    else if \<not> contains (lower ctype) ''text/html'' then (None, dbg2, w)
                    else if len > max_page_size_mb L * 1024 * 1024 then
                      (None,
                       dbg2\<lparr>errors := errors dbg2 @
                          [''Page too large: '' @ take 50 u @ '' ('' @ show_nat len @ '' bytes)'']\<rparr>,
                       w)
                    else
                      (Some (text, soup_text L text,
                             (case soup_title L text of None \<Rightarrow> [] | Some t \<Rightarrow> t),
                             (case soup_meta L text of None \<Rightarrow> [] | Some m \<Rightarrow> m), code),
                       dbg2\<lparr>pages_success := pages_success dbg2 + 1\<rparr>, w))
            | TimeoutException m \<Rightarrow>
                (None,
                 (if is_homepage
                  then dbg1\<lparr>blocked_reason := Some ''timeout'',
                            homepage_fetch_error := Some (''Timeout: '' @ take 50 m)\<rparr>
                  else dbg1)\<lparr>pages_failed := pages_failed dbg1 + 1,
                              errors := errors dbg1 @ [''Timeout: '' @ take 50 u]\<rparr>,
                 w)
            | ConnectError m \<Rightarrow>
                (None,
                 (if is_homepage
                  then dbg1\<lparr>blocked_reason :=
                              Some (if contains (lower m) ''ssl'' \<or> contains (lower m) ''certificate''
                                    then ''ssl''
                                    else if contains (lower m) ''dns'' \<or> contains (lower m) ''name''
                                    then ''dns'' else ''connection''),
                            homepage_fetch_error := Some (take 100 m)\<rparr>
                  else dbg1)\<lparr>pages_failed := pages_failed dbg1 + 1,
                              errors := errors dbg1 @ [''Connect error: '' @ take 50 m]\<rparr>,
                 w)
            | OtherError m \<Rightarrow>
                (None,
                 (if is_homepage
                  then dbg1\<lparr>blocked_reason := Some ''unknown'',
                            homepage_fetch_error := Some (take 100 m)\<rparr>
                  else dbg1)\<lparr>pages_failed := pages_failed dbg1 + 1,
                              errors := errors dbg1 @ [''Error: '' @ take 50 m]\<rparr>,
                 w)))"

text \<open>\<open>extract_links\<close>: the set of links, as a list without repetition.\<close>

definition extract_links :: "scr_lib \<Rightarrow> string \<Rightarrow> string \<Rightarrow> string list" where
  "extract_links L html base_url =
     (let base_domain = lower (netloc (urlparse L base_url));
          skip_patterns = [''.pdf'', ''.jpg'', ''.png'', ''.gif'', ''.zip'', ''.exe'',
                           ''javascript:'', ''mailto:'', ''tel:'', ''#'']
      in remdups (map (normalize_url L)
           (filter (\<lambda>a. lower (netloc (urlparse L a)) = base_domain
                         \<and> scheme (urlparse L a) \<in> {''http'', ''https''}
                         \<and> \<not> (\<exists>p \<in> set skip_patterns. contains (lower a) p))
              (anchor_urls L html base_url))))"

text \<open>\<open>find_sitemap\<close>: the loop over the candidate locations.\<close>

fun try_sitemaps ::
    "scr_lib \<Rightarrow> string list \<Rightarrow> scrape_debug \<Rightarrow> world \<Rightarrow> string list option \<times> scrape_debug \<times> world" where
  "try_sitemaps L [] dbg w = (None, dbg, w)"
| "try_sitemaps L (u # us) dbg w =
     (case net L (length (requests w)) u of
        Response code final ctype len text \<Rightarrow>
          (if code = 200 \<and> sitemap_locs L text \<noteq> []
           then (Some (take 100 (sitemap_locs L text)),
                 dbg\<lparr>sitemap_found := True, sitemap_urls_count := length (sitemap_locs L text)\<rparr>,
                 w\<lparr>requests := requests w @ [u]\<rparr>)
           else try_sitemaps L us dbg (w\<lparr>requests := requests w @ [u]\<rparr>))
      | r \<Rightarrow>
          try_sitemaps L us
            (dbg\<lparr>errors := errors dbg @
               [''Sitemap '' @ take 30 u @ '': '' @ take 30 (exn_message r)]\<rparr>)
            (w\<lparr>requests := requests w @ [u]\<rparr>))"

definition find_sitemap ::
    "scr_lib \<Rightarrow> string \<Rightarrow> scrape_debug \<times> world \<Rightarrow> string list option \<times> scrape_debug \<times> world" where
  "find_sitemap L host st =
     try_sitemaps L
       [''https://'' @ host @ ''/sitemap.xml'',
        ''https://'' @ host @ ''/sitemap_index.xml'',
        ''https://www.'' @ host @ ''/sitemap.xml''] (fst st) (snd st)"

text \<open>
  The database. A select for a hash within a job, and a commit of one new row, which the
  unique constraint on \<open>url_hash\<close> refuses (\<open>IntegrityError\<close>, here \<open>None\<close>, after which the
  code rolls back) when any row of any job has the hash.
\<close>

definition stored_for_job :: "scraped_page list \<Rightarrow> string \<Rightarrow> string \<Rightarrow> bool" where
  "stored_for_job rows h job_id = (\<exists>p \<in> set rows. url_hash p = h \<and> audit_job_id p = job_id)"

definition commit_page :: "scraped_page \<Rightarrow> scraped_page list \<Rightarrow> scraped_page list option" where
  "commit_page p rows =
     (if \<exists>q \<in> set rows. url_hash q = url_hash p then None else Some (rows @ [p]))"

text \<open>\<open>len(s.split())\<close>; the flag says that the character before belongs to a word.\<close>

fun count_words :: "bool \<Rightarrow> string \<Rightarrow> nat" where
  "count_words inw [] = 0"
| "count_words inw (c # cs) =
     (if is_space c then count_words False cs
      else (if inw then 0 else 1) + count_words True cs)"

definition make_page ::
    "string \<Rightarrow> string \<Rightarrow> string \<Rightarrow> bool \<Rightarrow> page_result \<Rightarrow> string \<Rightarrow> scraped_page" where
  "make_page job_id u host target res h =
     (case res of (html, text, ttl, meta, code) \<Rightarrow>
        \<lparr>audit_job_id = job_id, url = u, domain = host, is_target = target,
         html_content = Some html, text_content = Some text, title = Some ttl,
         meta_description = Some meta, status_code = int code, content_type = ''text/html'',
         word_count = count_words False text, url_hash = h\<rparr>)"

text \<open>
  A Python set of strings is a list without repetition; \<open>set_add\<close> is \<open>s.add(x)\<close>. The
  state of \<open>scrape_domain\<close> between two iterations of its loop.
\<close>

definition set_add :: "string list \<Rightarrow> string \<Rightarrow> string list" where
  "set_add xs x = (if x \<in> set xs then xs else xs @ [x])"

definition remove_nth :: "nat \<Rightarrow> 'a list \<Rightarrow> 'a list" where
  "remove_nth i xs = take i xs @ drop (Suc i) xs"

record crawl_state =
  visited :: "string set"
  to_visit :: "string list"
  pages_scraped :: nat
  priority_urls :: "string list"
  debug :: scrape_debug
  world :: world

text \<open>\<open>for link in links: if link not in visited: to_visit.add(link)\<close>.\<close>

definition add_unvisited :: "string set \<Rightarrow> string list \<Rightarrow> string list \<Rightarrow> string list" where
  "add_unvisited seen links frontier =
     foldl set_add frontier (filter (\<lambda>l. l \<notin> seen) links)"

text \<open>
  One iteration of the loop \<open>while to_visit and pages_scraped < max_pages\<close>, for a non-empty
  \<open>to_visit\<close>.
\<close>

definition loop_step ::
    "scr_lib \<Rightarrow> string \<Rightarrow> string \<Rightarrow> bool \<Rightarrow> nat \<Rightarrow> crawl_state \<Rightarrow> crawl_state" where
  "loop_step L host job_id target max_pages s =
     (let i = pop_index L (to_visit s) mod length (to_visit s);
          u = to_visit s ! i;
          s1 = s\<lparr>to_visit := remove_nth i (to_visit s)\<rparr>
      in if u \<in> visited s then s1
         else if stored_for_job (db (world s)) (get_url_hash L u) job_id
         then s1\<lparr>visited := insert u (visited s)\<rparr>
         else
           (case fetch_page L u False (debug s, world s) of
              (None, dbg, w) \<Rightarrow> s1\<lparr>visited := insert u (visited s), debug := dbg, world := w\<rparr>
            | (Some res, dbg, w) \<Rightarrow>
                (case commit_page (make_page job_id u host target res (get_url_hash L u)) (db w) of
                   None \<Rightarrow> s1\<lparr>visited := insert u (visited s), debug := dbg, world := w\<rparr>
                 | Some rows \<Rightarrow>
                     s1\<lparr>visited := insert u (visited s),
                        to_visit :=
                          (if target \<and> pages_scraped s + 1 < max_pages
                           then add_unvisited (insert u (visited s))
                                  (take 30 (sort_key (identify_page_priority L)
                                     (set_order L (extract_links L (fst res) u))))
                                  (remove_nth i (to_visit s))
                           else remove_nth i (to_visit s)),
                        pages_scraped := pages_scraped s + 1,
                        priority_urls :=
                          (if identify_page_priority L u \<le> 2 then priority_urls s @ [u]
                           else priority_urls s),
                        debug := dbg, world := w\<lparr>db := rows\<rparr>\<rparr>)))"

function crawl_loop ::
    "scr_lib \<Rightarrow> string \<Rightarrow> string \<Rightarrow> bool \<Rightarrow> nat \<Rightarrow> crawl_state \<Rightarrow> crawl_state" where
  "crawl_loop L host job_id target max_pages s =
     (if to_visit s \<noteq> [] \<and> pages_scraped s < max_pages
      then crawl_loop L host job_id target max_pages (loop_step L host job_id target max_pages s)
      else s)"
  by pat_completeness auto
termination
proof (relation "measures [\<lambda>(L, host, job_id, target, max_pages, s). max_pages - pages_scraped s,
                           \<lambda>(L, host, job_id, target, max_pages, s). length (to_visit s)]",
       goal_cases)
  case 1
  show ?case by simp
next
  case (2 L host job_id target max_pages s)
  let ?i = "pop_index L (to_visit s) mod length (to_visit s)"
  from 2 have "?i < length (to_visit s)" by simp
  then have less: "length (remove_nth ?i (to_visit s)) < length (to_visit s)"
    by (simp add: remove_nth_def)
  from 2 have lt: "pages_scraped s < max_pages" by simp
  show ?case
    using less lt
    by (auto simp: loop_step_def Let_def split: prod.split option.split)
qed

declare crawl_loop.simps [simp del]

text \<open>
  \<open>scrape_domain\<close> returns \<open>(pages_scraped, priority_urls, debug)\<close>; the model returns the
  world with it. \<open>after_homepage\<close> is the part that follows a successful fetch of the home
  page: it stores the page, seeds the frontier from its links and the sitemap, and runs
  the loop.
\<close>

definition store_homepage ::
    "scr_lib \<Rightarrow> string \<Rightarrow> string \<Rightarrow> bool \<Rightarrow> string \<Rightarrow> page_result \<Rightarrow> scrape_debug
       \<Rightarrow> scraped_page list \<Rightarrow> scraped_page list" where
  "store_homepage L host job_id target start_url res dbg rows =
     (if stored_for_job rows (get_url_hash L start_url) job_id then rows
      else (case commit_page
                   (make_page job_id
                      (case final_url dbg of
                         None \<Rightarrow> start_url
                       | Some f \<Rightarrow> or_default f start_url)
                      host target res (get_url_hash L start_url)) rows of
              None \<Rightarrow> rows
            | Some rows' \<Rightarrow> rows'))"

definition seed_state ::
    "scr_lib \<Rightarrow> string \<Rightarrow> string \<Rightarrow> bool \<Rightarrow> string \<Rightarrow> page_result
       \<Rightarrow> scrape_debug \<times> world \<Rightarrow> crawl_state" where
  "seed_state L host job_id target start_url res st =
     (let dbg = fst st;
          w1 = (snd st)\<lparr>db := store_homepage L host job_id target start_url res dbg (db (snd st))\<rparr>;
          seen = {start_url};
          homepage_links = extract_links L (fst res) start_url;
          dbg1 = dbg\<lparr>links_extracted_from_homepage := length homepage_links\<rparr>;
          frontier = add_unvisited seen
                       (sort_key (identify_page_priority L) (set_order L homepage_links)) [];
          (sitemap_urls, dbg2, w2) = find_sitemap L host (dbg1, w1);
          frontier' = (case sitemap_urls of
                         None \<Rightarrow> frontier
                       | Some us \<Rightarrow> add_unvisited seen (map (normalize_url L) us) frontier)
      in \<lparr>visited = seen, to_visit = frontier', pages_scraped = 1,
          priority_urls = [case final_url dbg of
                             None \<Rightarrow> start_url | Some f \<Rightarrow> or_default f start_url],
          debug = dbg2, world = w2\<rparr>)"

definition clean_domain :: "string \<Rightarrow> string" where
  "clean_domain domain0 =
     strip_char CHR ''/'' (replace_str ''http://'' [] (replace_str ''https://'' [] domain0))"

definition scrape_domain ::
    "scr_lib \<Rightarrow> string \<Rightarrow> string \<Rightarrow> bool \<Rightarrow> nat \<Rightarrow> world
       \<Rightarrow> (nat \<times> string list \<times> scrape_debug) \<times> world" where
  "scrape_domain L domain0 job_id target max_pages w0 =
     (let host = clean_domain domain0;
          start_url = ''https://'' @ host;
          dbg0 = (ScrapeDebug domain0)\<lparr>normalized_url := Some start_url\<rparr>;
          (allowed, dbg1, w1) = check_robots L host (dbg0, w0)
      in if robots_disallows_all dbg1 then
           ((0, [],
             dbg1\<lparr>blocked_reason := Some ''robots_disallow'',
                  errors := errors dbg1 @ [''robots.txt disallows all crawling'']\<rparr>), w1)
         else
           (case fetch_page L start_url True (dbg1, w1) of
              (None, dbg2, w2) \<Rightarrow>
                ((0, [],
                  (if blocked_reason dbg2 = None \<or> blocked_reason dbg2 = Some []
                   then dbg2\<lparr>blocked_reason := Some ''homepage_failed''\<rparr> else dbg2)), w2)
            | (Some res, dbg2, w2) \<Rightarrow>
                (let s = crawl_loop L host job_id target max_pages
                           (seed_state L host job_id target start_url res (dbg2, w2))
                 in ((pages_scraped s, priority_urls s, debug s), world s))))"

subsection \<open>Predicates and samples for the crawl\<close>

text \<open>
  \<open>robots_blocks\<close>: the answer to the robots request makes \<open>check_robots\<close> set
  \<open>robots_disallows_all\<close>. The file is served with status 200 and, in its lower-cased
  text, a line containing \<open>user-agent: *\<close> is followed within the next four lines by a line
  that is \<open>disallow: /\<close> once stripped.
\<close>

definition robots_blocks :: "scr_lib \<Rightarrow> string \<Rightarrow> world \<Rightarrow> bool" where
  "robots_blocks L host w =
     (case net L (length (requests w)) (''https://'' @ host @ ''/robots.txt'') of
        Response code final ctype len text \<Rightarrow>
          code = 200 \<and> contains (lower text) ''disallow: /''
          \<and> contains (lower text) ''user-agent: *''
          \<and> blanket_disallow (split_on CHR 0x0A (lower text))
      | _ \<Rightarrow> False)"

text \<open>The dedup keys stored for one job, in row order.\<close>

definition job_hashes :: "scraped_page list \<Rightarrow> string \<Rightarrow> string list" where
  "job_hashes rows j = map url_hash (filter (\<lambda>p. audit_job_id p = j) rows)"

text \<open>\<open>rows'\<close> extends \<open>rows\<close> by rows whose keys are new and differ from each other.\<close>

definition fresh_ext :: "scraped_page list \<Rightarrow> scraped_page list \<Rightarrow> bool" where
  "fresh_ext rows rows' =
     (\<exists>ps. rows' = rows @ ps \<and> distinct (map url_hash ps)
           \<and> url_hash ` set ps \<inter> url_hash ` set rows = {})"

text \<open>
  A sample site \<open>example.com\<close> for the crawler. URLs are split at the host name, which has
  19 characters with its scheme; the hash is replaced by the identity; pages carry no
  links and there is no sitemap. \<open>sample_net robots home\<close> serves the given robots file
  with status 200 and answers every other request with the status \<open>home\<close>.
\<close>

definition sample_net :: "string \<Rightarrow> nat \<Rightarrow> nat \<Rightarrow> string \<Rightarrow> http_outcome" where
  "sample_net robots home k u =
     (if u = ''https://example.com/robots.txt''
      then Response 200 u ''text/plain'' (length robots) robots
      else Response home u ''text/html'' 13 ''<html></html>'')"

definition sample_scr_lib :: "string \<Rightarrow> nat \<Rightarrow> scr_lib" where
  "sample_scr_lib robots home =
     \<lparr>net = sample_net robots home,
      urlparse = (\<lambda>u. UrlParts ''https'' ''example.com'' (drop 19 u) [] [] []
                       (Some ''example.com'')),
      urlunparse = (\<lambda>p. scheme p @ ''://'' @ netloc p @ path p),
      in_private_range = (\<lambda>h. False),
      sha256_hex = (\<lambda>s. s),
      soup_text = (\<lambda>h. []),
      soup_title = (\<lambda>h. None),
      soup_meta = (\<lambda>h. None),
      anchor_urls = (\<lambda>h b. []),
      sitemap_locs = (\<lambda>t. []),
      set_order = (\<lambda>xs. xs),
      pop_index = (\<lambda>xs. 0),
      max_page_size_mb = 5\<rparr>"

definition empty_world :: world where
  "empty_world = \<lparr>db = [], requests = []\<rparr>"

text \<open>A robots file whose blanket disallow stands five lines below the agent line.\<close>

definition late_disallow :: string where
  "late_disallow =
     ''User-agent: *'' @ [CHR 0x0A] @ ''Crawl-delay: 10'' @ [CHR 0x0A] @
     ''# staging'' @ [CHR 0x0A] @ ''# do not index'' @ [CHR 0x0A] @
     ''# ask the admin'' @ [CHR 0x0A] @ ''Disallow: /'' @ [CHR 0x0A]"

definition plain_disallow :: string where
  "plain_disallow = ''User-agent: *'' @ [CHR 0x0A] @ ''Disallow: /'' @ [CHR 0x0A]"

definition no_robots_rules :: string where
  "no_robots_rules = ''User-agent: *'' @ [CHR 0x0A] @ ''Disallow:'' @ [CHR 0x0A]"

text \<open>A row that another job stored for the home page of the sample site.\<close>

definition other_job_world :: world where
  "other_job_world =
     \<lparr>db = [make_page ''job-0'' ''https://example.com'' ''example.com'' True
                ([], [], [], [], 200) ''https://example.com/''],
      requests = []\<rparr>"

section \<open>Properties of the Python values\<close>

lemma dict_get_set_same: "dict_get (dict_set d k v) k = Some v"
  by (induction d) (auto simp: dict_get_def)

lemma dict_get_set_other: "k' \<noteq> k \<Longrightarrow> dict_get (dict_set d k v) k' = dict_get d k'"
  by (induction d) (auto simp: dict_get_def)

section \<open>Properties of the Stage A post-processing\<close>

lemma count_status_partition:
  "\<forall>e \<in> set es. known_status e \<Longrightarrow>
   count_status [''present''] es + count_status [''weak'', ''fragmented''] es
     + count_status [''missing''] es = length es"
proof (induction es)
  case Nil
  then show ?case by (simp add: count_status_def)
next
  case (Cons e es)
  then have k: "known_status e" and rest: "\<forall>e \<in> set es. known_status e" by simp_all
  from k obtain s where s: "status_of e = Inr (Some (JStr s))"
    and mem: "s \<in> {''present'', ''weak'', ''fragmented'', ''missing''}"
    by (auto simp: known_status_def split: sum.splits option.splits json.splits)
  from Cons.IH [OF rest] s mem show ?case
    by (auto simp: count_status_def)
qed

lemma padding_known: "known_status (padding_element i)"
  by (simp add: known_status_def padding_element_def dict_get_def)

lemma padding_is_dict: "is_dict (padding_element i)"
  by (simp add: padding_element_def)

lemma total_of_calculated:
  "calculated_score es = Inr sc \<Longrightarrow>
   \<exists>d t. sc = JObj d \<and> dict_get d ''total'' = Some t \<and> eq_int t (int (length es))"
  by (auto simp: calculated_score_def dict_get_def split: if_splits)

lemma sum_of_calculated:
  "calculated_score es = Inr sc \<Longrightarrow> \<forall>e \<in> set es. known_status e \<Longrightarrow>
   score_sum sc = Some (int (length es))"
  using count_status_partition [of es]
  by (auto simp: calculated_score_def score_sum_def dict_get_def split: if_splits)

lemma total_of_kept:
  "\<not> score_replaced (Some sc) n \<Longrightarrow>
   \<exists>d t. sc = JObj d \<and> dict_get d ''total'' = Some t \<and> eq_int t (int n)"
  by (auto simp: score_replaced_def split: json.splits option.splits)

text \<open>
  Claim C1 as stated fails. The generator returns eight elements (one present, three weak,
  four missing) and reports the score 1/3/4 with total 12. The array is padded to twelve
  entries, whose recount is 1/3/8 of 12, but the reported total agrees with the new length,
  so the reported score is kept: its three counts sum to 8, not to 12, and it disagrees with
  the recount without being overridden.
\<close>

theorem postprocess_keeps_reported_score_counterexample:
  "postprocess_decision audit_total_12 =
     Inr [(''decision_readiness_audit'', JList (sample_elements @ map padding_element [0 ..< 4])),
          (''decision_coverage_score'', score_total_12)] \<and>
   length (sample_elements @ map padding_element [0 ..< 4]) = 12 \<and>
   score_sum score_total_12 = Some 8 \<and>
   calculated_score (sample_elements @ map padding_element [0 ..< 4]) =
     Inr (JObj [(''present'', JInt 1), (''weak'', JInt 3), (''missing'', JInt 8),
                (''total'', JInt 12)])"
proof -
  have "postprocess_decision audit_total_12 =
     Inr [(''decision_readiness_audit'', JList (sample_elements @ map padding_element [0 ..< 4])),
          (''decision_coverage_score'', score_total_12)]"
    by (simp add: postprocess_decision_def pad_elements_def audit_total_12_def
        sample_elements_def score_total_12_def dict_get_def calculated_score_def
        score_replaced_def Let_def padding_is_dict)
  moreover have "length (sample_elements @ map padding_element [0 ..< 4]) = 12"
    by (simp add: sample_elements_def)
  moreover have "score_sum score_total_12 = Some 8"
    by (simp add: score_sum_def score_total_12_def dict_get_def)
  moreover have "calculated_score (sample_elements @ map padding_element [0 ..< 4]) =
     Inr (JObj [(''present'', JInt 1), (''weak'', JInt 3), (''missing'', JInt 8),
                (''total'', JInt 12)])"
    by (simp add: calculated_score_def sample_elements_def count_status_def dict_get_def
        padding_element_def upt_conv_Cons)
  ultimately show ?thesis by blast
qed

text \<open>
  Claim C1, amended. When \<open>decision_readiness_audit\<close> is a list of fewer than twelve dicts
  and the output carries no (or an empty) \<open>_fallback_decision_elements\<close> entry,
  post-processing succeeds and pads the list to exactly twelve entries by appending generic
  elements of status missing. The stored \<open>decision_coverage_score\<close> has a total equal to 12.
  It is the recount of the padded list whenever the reported score is missing, empty, not a
  dict, or has a total that is absent, zero or different from 12; the recounted present,
  weak and missing counts sum to 12 when every element's status is one of present, weak,
  fragmented or missing. A reported score whose total equals 12 is kept as reported.
\<close>

theorem postprocess_pads_and_settles_score:
  assumes arr: "dict_get audit_json ''decision_readiness_audit'' = Some (JList es)"
    and short: "length es < 12"
    and nofb: "case dict_get audit_json ''_fallback_decision_elements'' of
                 None \<Rightarrow> True | Some v \<Rightarrow> \<not> truthy v"
    and dicts: "\<forall>e \<in> set es. is_dict e"
  shows "\<exists>audit_json' sc.
     postprocess_decision audit_json = Inr audit_json' \<and>
     dict_get audit_json' ''decision_readiness_audit''
       = Some (JList (es @ map padding_element [0 ..< 12 - length es])) \<and>
     length (es @ map padding_element [0 ..< 12 - length es]) = 12 \<and>
     dict_get audit_json' ''decision_coverage_score'' = Some sc \<and>
     (\<exists>d t. sc = JObj d \<and> dict_get d ''total'' = Some t \<and> eq_int t 12) \<and>
     (if score_replaced (dict_get audit_json ''decision_coverage_score'') 12
      then calculated_score (es @ map padding_element [0 ..< 12 - length es]) = Inr sc \<and>
           ((\<forall>e \<in> set es. known_status e) \<longrightarrow> score_sum sc = Some 12)
      else dict_get audit_json ''decision_coverage_score'' = Some sc)"
proof -
  define es' where "es' = es @ map padding_element [0 ..< 12 - length es]"
  define aj1 where "aj1 = dict_set audit_json ''decision_readiness_audit'' (JList es')"
  have len: "length es' = 12" using short by (simp add: es'_def)
  have pad: "pad_elements audit_json es = Inr es'"
    using short nofb by (auto simp: pad_elements_def es'_def Let_def split: option.splits)
  have "\<forall>e \<in> set es'. is_dict e" using dicts by (auto simp: es'_def padding_is_dict)
  then obtain calc where calc: "calculated_score es' = Inr calc"
    by (simp add: calculated_score_def)
  have sc1: "dict_get aj1 ''decision_coverage_score''
               = dict_get audit_json ''decision_coverage_score''"
    by (simp add: aj1_def dict_get_set_other)
  have arr1: "dict_get aj1 ''decision_readiness_audit'' = Some (JList es')"
    by (simp add: aj1_def dict_get_set_same)
  have post: "postprocess_decision audit_json =
      (if score_replaced (dict_get audit_json ''decision_coverage_score'') 12
       then Inr (dict_set aj1 ''decision_coverage_score'' calc) else Inr aj1)"
    using arr short pad calc len sc1
    by (simp add: postprocess_decision_def aj1_def)
  show ?thesis
  proof (cases "score_replaced (dict_get audit_json ''decision_coverage_score'') 12")
    case True
    have known: "(\<forall>e \<in> set es. known_status e) \<longrightarrow> score_sum calc = Some 12"
    proof
      assume "\<forall>e \<in> set es. known_status e"
      then have "\<forall>e \<in> set es'. known_status e" by (auto simp: es'_def padding_known)
      from sum_of_calculated [OF calc this] len show "score_sum calc = Some 12" by simp
    qed
    from total_of_calculated [OF calc] len
    have tot: "\<exists>d t. calc = JObj d \<and> dict_get d ''total'' = Some t \<and> eq_int t 12" by simp
    have "dict_get (dict_set aj1 ''decision_coverage_score'' calc) ''decision_readiness_audit''
            = Some (JList es')"
      using arr1 by (simp add: dict_get_set_other)
    with True post calc known tot len show ?thesis
      unfolding es'_def [symmetric]
      by (intro exI [of _ "dict_set aj1 ''decision_coverage_score'' calc"] exI [of _ calc])
         (simp add: dict_get_set_same)
  next
    case False
    then obtain sc where sc: "dict_get audit_json ''decision_coverage_score'' = Some sc"
      by (auto simp: score_replaced_def split: option.splits)
    from False sc total_of_kept [of sc 12]
    have tot: "\<exists>d t. sc = JObj d \<and> dict_get d ''total'' = Some t \<and> eq_int t 12" by simp
    from False post arr1 sc sc1 tot len show ?thesis
      unfolding es'_def [symmetric]
      by (intro exI [of _ aj1] exI [of _ sc]) simp
  qed
qed

theorem postprocess_pads_and_settles_score_witness:
  "dict_get audit_total_8 ''decision_readiness_audit'' = Some (JList sample_elements) \<and>
   length sample_elements < 12 \<and>
   dict_get audit_total_8 ''_fallback_decision_elements'' = None \<and>
   list_all is_dict sample_elements \<and>
   list_all known_status sample_elements \<and>
   score_replaced (dict_get audit_total_8 ''decision_coverage_score'') 12 \<and>
   (\<exists>audit_json' sc.
      postprocess_decision audit_total_8 = Inr audit_json' \<and>
      dict_get audit_json' ''decision_readiness_audit''
        = Some (JList (sample_elements @ map padding_element [0 ..< 4])) \<and>
      dict_get audit_json' ''decision_coverage_score'' = Some sc \<and>
      calculated_score (sample_elements @ map padding_element [0 ..< 4]) = Inr sc \<and>
      score_sum sc = Some 12)"
proof -
  have a: "dict_get audit_total_8 ''decision_readiness_audit'' = Some (JList sample_elements)"
    by (simp add: audit_total_8_def dict_get_def)
  have b: "length sample_elements < 12" by (simp add: sample_elements_def)
  have n: "dict_get audit_total_8 ''_fallback_decision_elements'' = None"
    by (simp add: audit_total_8_def dict_get_def)
  then have c: "case dict_get audit_total_8 ''_fallback_decision_elements'' of
             None \<Rightarrow> True | Some v \<Rightarrow> \<not> truthy v"
    by simp
  have d: "\<forall>e \<in> set sample_elements. is_dict e" by (simp add: sample_elements_def)
  have k: "\<forall>e \<in> set sample_elements. known_status e"
    by (simp add: sample_elements_def known_status_def dict_get_def)
  have r: "score_replaced (dict_get audit_total_8 ''decision_coverage_score'') 12"
    by (simp add: audit_total_8_def dict_get_def score_replaced_def)
  have l: "12 - length sample_elements = 4" by (simp add: sample_elements_def)
  from postprocess_pads_and_settles_score [OF a b c d] r l k
  have "\<exists>audit_json' sc.
      postprocess_decision audit_total_8 = Inr audit_json' \<and>
      dict_get audit_json' ''decision_readiness_audit''
        = Some (JList (sample_elements @ map padding_element [0 ..< 4])) \<and>
      dict_get audit_json' ''decision_coverage_score'' = Some sc \<and>
      calculated_score (sample_elements @ map padding_element [0 ..< 4]) = Inr sc \<and>
      score_sum sc = Some 12"
    by auto
  with a b n d k r show ?thesis by (simp add: list_all_iff)
qed

section \<open>Properties of the evidence extractor\<close>








































text \<open>
  Claim C7. For the empty page list the company profile is fully populated: the entity
  name is the fallback domain (or \<open>this domain\<close> when that is empty), the offer summary
  and the primary language are the literal \<open>not detected\<close>, and services, locations and
  top pages are empty lists. The values that are \<open>None\<close> inside
  \<open>build_company_profile\<close> are options in the model; none reaches the returned profile.
\<close>

theorem empty_pages_profile_populated:
  "el_company_profile (build_evidence_layer L max_pages [] fallback_domain locale) =
     \<lparr>company_name = (if fallback_domain = [] then ''this domain'' else fallback_domain),
      primary_offer_summary = ''not detected'',
      services_detected = [],
      locations_detected_cp = [],
      primary_language_detected = ''not detected'',
      top_pages = []\<rparr>"
  by (simp add: build_evidence_layer_def extract_pages_def build_company_profile_def
      iter_pages_prefer_home_def top_pages_of_def dedupe_keep_order_def or_default_def Let_def)

theorem empty_pages_profile_populated_witness:
  "el_company_profile (build_evidence_layer sample_lib 15 [] ''example.com'' None) =
     \<lparr>company_name = ''example.com'',
      primary_offer_summary = ''not detected'',
      services_detected = [],
      locations_detected_cp = [],
      primary_language_detected = ''not detected'',
      top_pages = []\<rparr>"
  using empty_pages_profile_populated [of sample_lib 15 "''example.com''" None] by simp

end
